theory Spec2Isabelle
  imports Complex_Main "HOL-Library.Sublist"
begin

section \<open>Environment and paths\<close>

text \<open>
  The class body of \<^verbatim>\<open>Definition\<close> (definition.py, lines 33 to 56) reads three
  environment variables with \<^verbatim>\<open>os.getenv\<close>, builds its defaults with
  \<^verbatim>\<open>os.path.join\<close> and creates the encoder directory with \<^verbatim>\<open>os.makedirs\<close>.
  The environment is a partial map from variable names to values.
\<close>

type_synonym path = string
type_synonym environ = "string \<rightharpoonup> string"

text \<open>\<^verbatim>\<open>os.getenv(key, default)\<close>: the value when the variable is set (also when it is set
  to the empty string), the default otherwise.\<close>

definition getenv :: "environ \<Rightarrow> string \<Rightarrow> string \<Rightarrow> string" where
  "getenv env key dflt = (case env key of Some v \<Rightarrow> v | None \<Rightarrow> dflt)"

definition sep :: char where
  "sep = CHR ''/''"

definition startswith_sep :: "string \<Rightarrow> bool" where
  "startswith_sep s = (case s of [] \<Rightarrow> False | c # _ \<Rightarrow> c = sep)"

definition endswith_sep :: "string \<Rightarrow> bool" where
  "endswith_sep s = (case rev s of [] \<Rightarrow> False | c # _ \<Rightarrow> c = sep)"

text \<open>\<^verbatim>\<open>posixpath.join(a, b)\<close> with one component \<open>b\<close>: an absolute \<open>b\<close> replaces
  \<open>a\<close>; an empty \<open>a\<close> or one that ends with the separator is extended by \<open>b\<close>;
  otherwise the separator is put between the two.\<close>

definition path_join :: "path \<Rightarrow> path \<Rightarrow> path" where
  "path_join a b =
     (if startswith_sep b then b
      else if a = [] \<or> endswith_sep a then a @ b
      else a @ sep # b)"

text \<open>\<^verbatim>\<open>posixpath.split(p)\<close>: the tail is what follows the last separator, the head is
  the rest, stripped of its trailing separators unless it consists of separators only.\<close>

definition rstrip_sep :: "string \<Rightarrow> string" where
  "rstrip_sep s = rev (dropWhile (\<lambda>c. c = sep) (rev s))"

definition path_split :: "path \<Rightarrow> path \<times> path" where
  "path_split p =
     (let hd0 = rev (dropWhile (\<lambda>c. c \<noteq> sep) (rev p));
          tl0 = rev (takeWhile (\<lambda>c. c \<noteq> sep) (rev p))
      in (if hd0 \<noteq> [] \<and> \<not> list_all (\<lambda>c. c = sep) hd0 then rstrip_sep hd0 else hd0, tl0))"

section \<open>Directory creation\<close>

text \<open>
  Exceptions the file-system calls raise. All but \<open>ValueError\<close> (raised for a path with an
  embedded null byte) are subclasses of \<^verbatim>\<open>OSError\<close>; \<open>OSError n\<close> stands for any
  other errno.
\<close>

datatype exn =
    FileExistsError
  | FileNotFoundError
  | PermissionError
  | NotADirectoryError
  | OSError nat
  | ValueError

definition is_OSError :: "exn \<Rightarrow> bool" where
  "is_OSError e = (e \<noteq> ValueError)"

text \<open>
  The operating system is a parameter: a state of the file system of type \<open>'fs\<close>, the
  system call \<^verbatim>\<open>os.mkdir\<close>, which fails or returns the new state, and the two queries
  \<^verbatim>\<open>os.path.exists\<close> and \<^verbatim>\<open>os.path.isdir\<close>.
\<close>

record 'fs posix =
  os_mkdir :: "path \<Rightarrow> 'fs \<Rightarrow> exn + 'fs"
  path_exists :: "'fs \<Rightarrow> path \<Rightarrow> bool"
  path_isdir :: "'fs \<Rightarrow> path \<Rightarrow> bool"

text \<open>The head and tail \<^verbatim>\<open>os.makedirs\<close> works with: the split of the name, split once
  more when the name ends with a separator.\<close>

definition dirparts :: "path \<Rightarrow> path \<times> path" where
  "dirparts name =
     (let (h, t) = path_split name in if t = [] then path_split h else (h, t))"

text \<open>The last step of \<^verbatim>\<open>os.makedirs\<close>: \<^verbatim>\<open>mkdir\<close>, whose \<^verbatim>\<open>OSError\<close> is swallowed
  when \<open>exist_ok\<close> is set and the name is a directory.\<close>

definition mkdir_leaf :: "'fs posix \<Rightarrow> path \<Rightarrow> bool \<Rightarrow> 'fs \<Rightarrow> (exn + unit) \<times> 'fs" where
  "mkdir_leaf os name exist_ok fs =
     (case os_mkdir os name fs of
        Inr fs' \<Rightarrow> (Inr (), fs')
      | Inl e \<Rightarrow>
          if is_OSError e \<and> \<not> (\<not> exist_ok \<or> \<not> path_isdir os fs name) then (Inr (), fs)
          else (Inl e, fs))"

lemma length_rstrip_sep: "length (rstrip_sep s) \<le> length s"
  by (simp add: rstrip_sep_def) (metis length_dropWhile_le length_rev)

lemma length_split_head: "length (fst (path_split p)) \<le> length p"
proof -
  have "length (rev (dropWhile (\<lambda>c. c \<noteq> sep) (rev p))) \<le> length p"
    by (metis length_dropWhile_le length_rev)
  then show ?thesis
    using length_rstrip_sep [of "rev (dropWhile (\<lambda>c. c \<noteq> sep) (rev p))"]
    by (auto simp: path_split_def Let_def)
qed

lemma length_split: "length (fst (path_split p)) + length (snd (path_split p)) \<le> length p"
proof -
  let ?h = "rev (dropWhile (\<lambda>c. c \<noteq> sep) (rev p))"
  let ?t = "rev (takeWhile (\<lambda>c. c \<noteq> sep) (rev p))"
  have "length ?h + length ?t = length p"
    by (metis add.commute length_append length_rev takeWhile_dropWhile_id)
  then show ?thesis
    using length_rstrip_sep [of ?h] by (auto simp: path_split_def Let_def)
qed

lemma dirparts_shorter:
  assumes "snd (dirparts name) \<noteq> []"
  shows "length (fst (dirparts name)) < length name"
proof (cases "snd (path_split name) = []")
  case True
  then have "dirparts name = path_split (fst (path_split name))"
    by (cases "path_split name") (simp add: dirparts_def)
  with assms length_split [of "fst (path_split name)"] length_split_head [of name]
  show ?thesis by (cases "snd (path_split (fst (path_split name)))") auto
next
  case False
  then have "dirparts name = path_split name"
    by (cases "path_split name") (simp add: dirparts_def)
  with False length_split [of name] show ?thesis
    by (cases "snd (path_split name)") auto
qed

text \<open>
  \<^verbatim>\<open>os.makedirs(name, exist_ok=exist_ok)\<close>: when the head does not exist it is created
  first, by recursion; a \<^verbatim>\<open>FileExistsError\<close> of the recursive call is swallowed, any
  other exception leaves the function; a tail \<^verbatim>\<open>.\<close> ends the call after the head is
  made. The file system is threaded through, since directories made before a failure stay.
\<close>

function makedirs :: "'fs posix \<Rightarrow> path \<Rightarrow> bool \<Rightarrow> 'fs \<Rightarrow> (exn + unit) \<times> 'fs" where
  "makedirs os name exist_ok fs =
     (if fst (dirparts name) \<noteq> [] \<and> snd (dirparts name) \<noteq> []
         \<and> \<not> path_exists os fs (fst (dirparts name))
      then
        (case makedirs os (fst (dirparts name)) exist_ok fs of
           (Inl e, fs1) \<Rightarrow>
             if e = FileExistsError then
               (if snd (dirparts name) = ''.'' then (Inr (), fs1)
                else mkdir_leaf os name exist_ok fs1)
             else (Inl e, fs1)
         | (Inr _, fs1) \<Rightarrow>
             if snd (dirparts name) = ''.'' then (Inr (), fs1)
             else mkdir_leaf os name exist_ok fs1)
      else mkdir_leaf os name exist_ok fs)"
  by pat_completeness auto
termination
  by (relation "measure (\<lambda>(os, name, exist_ok, fs). length name)")
    (auto simp: dirparts_shorter)

declare makedirs.simps [simp del]

section \<open>The class body of Definition\<close>

text \<open>
  The three class attributes. \<^verbatim>\<open>FileSystemConfiguration.woodgate_base_dir\<close> comes
  from a module that is not among the sources, so the base directory is a parameter.
  The class body runs once, when the module is imported: an exception of
  \<^verbatim>\<open>os.makedirs\<close> leaves it, and then no class exists.
\<close>

record Definition =
  bert_dir :: path
  bert_config :: path
  bert_model :: path

definition Definition_body ::
  "'fs posix \<Rightarrow> environ \<Rightarrow> path \<Rightarrow> 'fs \<Rightarrow> (exn + Definition) \<times> 'fs" where
  "Definition_body os env woodgate_base_dir fs =
     (let d = getenv env ''BERT_DIR'' (path_join woodgate_base_dir ''bert'') in
      case makedirs os d True fs of
        (Inl e, fs') \<Rightarrow> (Inl e, fs')
      | (Inr _, fs') \<Rightarrow>
          (Inr \<lparr>bert_dir = d,
                bert_config = getenv env ''BERT_CONFIG'' (path_join d ''bert_config.json''),
                bert_model = getenv env ''BERT_MODEL'' (path_join d ''bert_model.ckpt'')\<rparr>,
           fs'))"

section \<open>The summary printer\<close>

text \<open>
  \<^verbatim>\<open>ModelSummary.print\<close> (model_summary.py, line 25) returns
  \<^verbatim>\<open>bert_model.summary()\<close>. The summary routine belongs to the framework: it is a
  parameter that takes the model object (the argument \<^verbatim>\<open>bert_model\<close> of the source,
  here \<open>keras_model\<close>) and the state of the standard output, and raises or returns,
  with the new state of the output.
\<close>

definition ModelSummary_print ::
  "('m \<Rightarrow> 'out \<Rightarrow> ('x + 'r) \<times> 'out) \<Rightarrow> 'm \<Rightarrow> 'out \<Rightarrow> ('x + 'r) \<times> 'out" where
  "ModelSummary_print summary keras_model out = summary keras_model out"

section \<open>The framework and the world of objects\<close>

text \<open>
  \<^verbatim>\<open>create_model\<close> (definition.py, lines 70 to 121) calls the encoder library and the
  deep-learning framework and nothing else. What it builds are objects of the
  framework: layers, symbolic tensors and a model. A layer object lives at an address
  and holds the arguments of its constructor and, once it is built, its weights; a
  symbolic tensor records the layer that produced it and the tensor that layer was
  called on; a model object holds its input and its output tensor.
\<close>

type_synonym addr = nat

datatype dtype = Int32 | Float32

datatype activation = Tanh | Softmax

text \<open>The function of the \<^verbatim>\<open>Lambda\<close> layer, \<^verbatim>\<open>lambda seq: seq[:, 0, :]\<close>: of every
  sequence of the batch, the vector at position 0; an index error on an empty
  sequence.\<close>

datatype fn = First_token

fun apply_fn :: "fn \<Rightarrow> 'a list list list \<Rightarrow> 'a list list option" where
  "apply_fn First_token seq =
     (if list_all (\<lambda>s. s \<noteq> []) seq then Some (map (\<lambda>s. s ! 0) seq) else None)"

text \<open>The parameters of the encoder: the adapter size, which the source assigns, and
  the other hyperparameters, which it passes on as they are.\<close>

record 'h bert_params =
  adapter_size :: "int option"
  hyper :: 'h

datatype 'h layer =
    InputLayer "int list" dtype string
  | BertModelLayer "'h bert_params" string
  | Lambda fn
  | Dropout rat
  | Dense int activation

datatype tensor = KerasInput addr | KerasOutput addr tensor

datatype ('h, 'w) obj = LayerObj "'h layer" "'w option" | ModelObj tensor tensor

text \<open>The calls into the libraries, in the order they are made.\<close>

datatype 'h event =
    ReadFile path
  | ParseConfig string
  | MapParams
  | FromParams "'h bert_params" string
  | Construct "'h layer"
  | CallLayer addr tensor
  | MakeModel tensor tensor
  | BuildModel addr "int option list"
  | LoadWeights addr path

text \<open>An exception is one a library raised, of the opaque type \<open>'x\<close>, or the
  \<^verbatim>\<open>TypeError\<close> of calling an object that is not a layer.\<close>

datatype 'x pyexn = TypeError | Raised 'x

record ('h, 'w, 'g) world =
  heap :: "addr \<rightharpoonup> ('h, 'w) obj"
  next_id :: addr
  rng :: 'g
  trace :: "'h event list"

text \<open>
  The libraries are parameters. \<open>fw_read\<close> is \<^verbatim>\<open>tf.io.gfile.GFile(name).read()\<close> on
  a file system \<open>'fs\<close>; \<open>fw_from_json_string\<close> and \<open>fw_map_stock_config_to_params\<close> are
  the two functions of \<^verbatim>\<open>bert.loader\<close>; \<open>fw_raises\<close> says which exception, if any, a
  constructor, a layer call, \<^verbatim>\<open>keras.Model\<close> or \<^verbatim>\<open>build\<close> raises in a given heap;
  \<open>fw_initializer\<close> draws the initial weights of a layer from the state of the random
  generator when the layer is built; \<open>fw_load_stock_weights\<close> reads the checkpoint and
  returns the values it assigns, by the address of the layer they are assigned to.
\<close>

record ('fs, 'x, 'cfg, 'h, 'w, 'g) framework =
  fw_read :: "'fs \<Rightarrow> path \<Rightarrow> 'x + string"
  fw_from_json_string :: "string \<Rightarrow> 'x + 'cfg"
  fw_map_stock_config_to_params :: "'cfg \<Rightarrow> 'x + 'h bert_params"
  fw_raises :: "'h event \<Rightarrow> (addr \<rightharpoonup> ('h, 'w) obj) \<Rightarrow> 'x option"
  fw_initializer ::
    "'h layer \<Rightarrow> tensor \<Rightarrow> (addr \<rightharpoonup> ('h, 'w) obj) \<Rightarrow> 'g \<Rightarrow> 'w \<times> 'g"
  fw_load_stock_weights ::
    "'fs \<Rightarrow> path \<Rightarrow> addr \<Rightarrow> (addr \<rightharpoonup> ('h, 'w) obj) \<Rightarrow> 'x + (addr \<rightharpoonup> 'w)"

text \<open>Statements run in sequence on the world; an exception ends the sequence and
  keeps the world as it was when it was raised.\<close>

type_synonym ('x, 'a, 's) prog = "'s \<Rightarrow> ('x pyexn + 'a) \<times> 's"

definition andthen ::
  "('x, 'a, 's) prog \<Rightarrow> ('a \<Rightarrow> ('x, 'b, 's) prog) \<Rightarrow> ('x, 'b, 's) prog" where
  "andthen m f s = (case m s of (Inl x, s') \<Rightarrow> (Inl x, s') | (Inr a, s') \<Rightarrow> f a s')"

definition return :: "'a \<Rightarrow> ('x, 'a, 's) prog" where
  "return a s = (Inr a, s)"

definition emit :: "'h event \<Rightarrow> ('h, 'w, 'g) world \<Rightarrow> ('h, 'w, 'g) world" where
  "emit e w = w\<lparr>trace := trace w @ [e]\<rparr>"

definition lift :: "'h event \<Rightarrow> 'x + 'a \<Rightarrow> ('x, 'a, ('h, 'w, 'g) world) prog" where
  "lift e r w = (case r of Inl x \<Rightarrow> (Inl (Raised x), emit e w) | Inr a \<Rightarrow> (Inr a, emit e w))"

definition checked ::
  "('fs, 'x, 'cfg, 'h, 'w, 'g) framework \<Rightarrow> 'h event
     \<Rightarrow> ('x, unit, ('h, 'w, 'g) world) prog" where
  "checked fw e w =
     (case fw_raises fw e (heap w) of
        Some x \<Rightarrow> (Inl (Raised x), emit e w)
      | None \<Rightarrow> (Inr (), emit e w))"

text \<open>A new object gets the next address.\<close>

definition alloc :: "('h, 'w) obj \<Rightarrow> ('x, addr, ('h, 'w, 'g) world) prog" where
  "alloc ob w =
     (Inr (next_id w), w\<lparr>heap := (heap w)(next_id w \<mapsto> ob), next_id := Suc (next_id w)\<rparr>)"

definition GFile_read ::
  "('fs, 'x, 'cfg, 'h, 'w, 'g) framework \<Rightarrow> 'fs \<Rightarrow> path
     \<Rightarrow> ('x, string, ('h, 'w, 'g) world) prog" where
  "GFile_read fw fs name = lift (ReadFile name) (fw_read fw fs name)"

definition from_json_string ::
  "('fs, 'x, 'cfg, 'h, 'w, 'g) framework \<Rightarrow> string \<Rightarrow> ('x, 'cfg, ('h, 'w, 'g) world) prog" where
  "from_json_string fw txt = lift (ParseConfig txt) (fw_from_json_string fw txt)"

definition map_stock_config_to_params ::
  "('fs, 'x, 'cfg, 'h, 'w, 'g) framework \<Rightarrow> 'cfg
     \<Rightarrow> ('x, 'h bert_params, ('h, 'w, 'g) world) prog" where
  "map_stock_config_to_params fw bc = lift MapParams (fw_map_stock_config_to_params fw bc)"

text \<open>\<^verbatim>\<open>BertModelLayer.from_params(params, name=name)\<close>: a new encoder layer with these
  parameters, not built yet.\<close>

definition from_params ::
  "('fs, 'x, 'cfg, 'h, 'w, 'g) framework \<Rightarrow> 'h bert_params \<Rightarrow> string
     \<Rightarrow> ('x, addr, ('h, 'w, 'g) world) prog" where
  "from_params fw params name =
     andthen (checked fw (FromParams params name))
       (\<lambda>_. alloc (LayerObj (BertModelLayer params name) None))"

text \<open>A constructor of \<^verbatim>\<open>keras.layers\<close>: a new layer, not built yet.\<close>

definition new_layer ::
  "('fs, 'x, 'cfg, 'h, 'w, 'g) framework \<Rightarrow> 'h layer \<Rightarrow> ('x, addr, ('h, 'w, 'g) world) prog" where
  "new_layer fw c = andthen (checked fw (Construct c)) (\<lambda>_. alloc (LayerObj c None))"

text \<open>\<^verbatim>\<open>keras.layers.Input\<close> makes an input layer and returns its tensor.\<close>

definition Input ::
  "('fs, 'x, 'cfg, 'h, 'w, 'g) framework \<Rightarrow> int list \<Rightarrow> dtype \<Rightarrow> string
     \<Rightarrow> ('x, tensor, ('h, 'w, 'g) world) prog" where
  "Input fw shape dt name =
     andthen (new_layer fw (InputLayer shape dt name)) (\<lambda>a. return (KerasInput a))"

text \<open>Calling a layer on a tensor: the first call builds the layer, which gives it
  its initial weights; the result is the tensor this layer produced from that one.\<close>

definition layer_call ::
  "('fs, 'x, 'cfg, 'h, 'w, 'g) framework \<Rightarrow> addr \<Rightarrow> tensor
     \<Rightarrow> ('x, tensor, ('h, 'w, 'g) world) prog" where
  "layer_call fw a t =
     andthen (checked fw (CallLayer a t))
       (\<lambda>_ w. case heap w a of
          Some (LayerObj c None) \<Rightarrow>
            (let (ws, g) = fw_initializer fw c t (heap w) (rng w)
             in (Inr (KerasOutput a t),
                 w\<lparr>heap := (heap w)(a \<mapsto> LayerObj c (Some ws)), rng := g\<rparr>))
        | Some (LayerObj c (Some ws)) \<Rightarrow> (Inr (KerasOutput a t), w)
        | _ \<Rightarrow> (Inl TypeError, w))"

definition Model ::
  "('fs, 'x, 'cfg, 'h, 'w, 'g) framework \<Rightarrow> tensor \<Rightarrow> tensor
     \<Rightarrow> ('x, addr, ('h, 'w, 'g) world) prog" where
  "Model fw inputs outputs =
     andthen (checked fw (MakeModel inputs outputs)) (\<lambda>_. alloc (ModelObj inputs outputs))"

definition build ::
  "('fs, 'x, 'cfg, 'h, 'w, 'g) framework \<Rightarrow> addr \<Rightarrow> int option list
     \<Rightarrow> ('x, unit, ('h, 'w, 'g) world) prog" where
  "build fw m input_shape = checked fw (BuildModel m input_shape)"

text \<open>Assigning weights leaves the constructor arguments of every layer, and every
  object that is not a layer, as they are.\<close>

definition set_weights ::
  "(addr \<rightharpoonup> 'w) \<Rightarrow> (addr \<rightharpoonup> ('h, 'w) obj) \<Rightarrow> (addr \<rightharpoonup> ('h, 'w) obj)" where
  "set_weights upd h =
     (\<lambda>a. case h a of
        Some (LayerObj c ws) \<Rightarrow>
          (case upd a of Some v \<Rightarrow> Some (LayerObj c (Some v)) | None \<Rightarrow> Some (LayerObj c ws))
      | other \<Rightarrow> other)"

text \<open>\<^verbatim>\<open>load_stock_weights(bert, ckpt)\<close>: the loader is handed the address of the layer
  and the path of the checkpoint; the values it returns are assigned in place.\<close>

definition load_stock_weights ::
  "('fs, 'x, 'cfg, 'h, 'w, 'g) framework \<Rightarrow> 'fs \<Rightarrow> addr \<Rightarrow> path
     \<Rightarrow> ('x, unit, ('h, 'w, 'g) world) prog" where
  "load_stock_weights fw fs bert ckpt w =
     (case fw_load_stock_weights fw fs ckpt bert (heap w) of
        Inl x \<Rightarrow> (Inl (Raised x), emit (LoadWeights bert ckpt) w)
      | Inr upd \<Rightarrow>
          (Inr (), emit (LoadWeights bert ckpt) (w\<lparr>heap := set_weights upd (heap w)\<rparr>)))"

section \<open>create_model\<close>

text \<open>
  The statements of \<^verbatim>\<open>create_model\<close> in the order of the source. \<open>cls\<close> is the class
  with its three resolved paths, \<open>fs\<close> the file system the libraries read.
\<close>

definition create_model ::
  "('fs, 'x, 'cfg, 'h, 'w, 'g) framework \<Rightarrow> 'fs \<Rightarrow> Definition \<Rightarrow> int \<Rightarrow> int
     \<Rightarrow> ('x, addr, ('h, 'w, 'g) world) prog" where
  "create_model fw fs cls max_sequence_length number_of_intents =
     andthen (GFile_read fw fs (bert_config cls)) (\<lambda>text.
     andthen (from_json_string fw text) (\<lambda>bc.
     andthen (map_stock_config_to_params fw bc) (\<lambda>bert_params.
     andthen (from_params fw (bert_params\<lparr>adapter_size := None\<rparr>) ''bert'') (\<lambda>bert.
     andthen (Input fw [max_sequence_length] Int32 ''input_ids'') (\<lambda>input_ids.
     andthen (layer_call fw bert input_ids) (\<lambda>bert_output.
     andthen (new_layer fw (Lambda First_token)) (\<lambda>pool.
     andthen (layer_call fw pool bert_output) (\<lambda>cls_out.
     andthen (new_layer fw (Dropout (1 / 2))) (\<lambda>drop1.
     andthen (layer_call fw drop1 cls_out) (\<lambda>cls_out.
     andthen (new_layer fw (Dense 768 Tanh)) (\<lambda>dense1.
     andthen (layer_call fw dense1 cls_out) (\<lambda>logits.
     andthen (new_layer fw (Dropout (1 / 2))) (\<lambda>drop2.
     andthen (layer_call fw drop2 logits) (\<lambda>logits.
     andthen (new_layer fw (Dense number_of_intents Softmax)) (\<lambda>dense2.
     andthen (layer_call fw dense2 logits) (\<lambda>logits.
     andthen (Model fw input_ids logits) (\<lambda>model.
     andthen (build fw model [None, Some max_sequence_length]) (\<lambda>_.
     andthen (load_stock_weights fw fs bert (bert_model cls)) (\<lambda>_.
     return model)))))))))))))))))))"

text \<open>
  The statements up to and including \<^verbatim>\<open>model.build\<close> (lines 90 to 117), which
  assemble and build the graph: the same sequence, returning the encoder layer with the
  model. \<open>create_model\<close> is this sequence followed by the loading of the weights, as
  lemma \<open>create_model_assemble\<close> below shows.
\<close>

definition assemble ::
  "('fs, 'x, 'cfg, 'h, 'w, 'g) framework \<Rightarrow> 'fs \<Rightarrow> Definition \<Rightarrow> int \<Rightarrow> int
     \<Rightarrow> ('x, addr \<times> addr, ('h, 'w, 'g) world) prog" where
  "assemble fw fs cls max_sequence_length number_of_intents =
     andthen (GFile_read fw fs (bert_config cls)) (\<lambda>text.
     andthen (from_json_string fw text) (\<lambda>bc.
     andthen (map_stock_config_to_params fw bc) (\<lambda>bert_params.
     andthen (from_params fw (bert_params\<lparr>adapter_size := None\<rparr>) ''bert'') (\<lambda>bert.
     andthen (Input fw [max_sequence_length] Int32 ''input_ids'') (\<lambda>input_ids.
     andthen (layer_call fw bert input_ids) (\<lambda>bert_output.
     andthen (new_layer fw (Lambda First_token)) (\<lambda>pool.
     andthen (layer_call fw pool bert_output) (\<lambda>cls_out.
     andthen (new_layer fw (Dropout (1 / 2))) (\<lambda>drop1.
     andthen (layer_call fw drop1 cls_out) (\<lambda>cls_out.
     andthen (new_layer fw (Dense 768 Tanh)) (\<lambda>dense1.
     andthen (layer_call fw dense1 cls_out) (\<lambda>logits.
     andthen (new_layer fw (Dropout (1 / 2))) (\<lambda>drop2.
     andthen (layer_call fw drop2 logits) (\<lambda>logits.
     andthen (new_layer fw (Dense number_of_intents Softmax)) (\<lambda>dense2.
     andthen (layer_call fw dense2 logits) (\<lambda>logits.
     andthen (Model fw input_ids logits) (\<lambda>model.
     andthen (build fw model [None, Some max_sequence_length]) (\<lambda>_.
     return (bert, model)))))))))))))))))))"

section \<open>Reading a model\<close>

text \<open>The layers of a model, from its input to its output, as \<^verbatim>\<open>model.layers\<close> lists
  them; the constructor arguments and the weights of the layer at an address.\<close>

fun chain :: "tensor \<Rightarrow> addr list" where
  "chain (KerasInput a) = [a]"
| "chain (KerasOutput a t) = chain t @ [a]"

definition model_layers :: "(addr \<rightharpoonup> ('h, 'w) obj) \<Rightarrow> addr \<Rightarrow> addr list" where
  "model_layers h m = (case h m of Some (ModelObj i out) \<Rightarrow> chain out | _ \<Rightarrow> [])"

definition conf_at :: "(addr \<rightharpoonup> ('h, 'w) obj) \<Rightarrow> addr \<Rightarrow> 'h layer option" where
  "conf_at h a = (case h a of Some (LayerObj c ws) \<Rightarrow> Some c | _ \<Rightarrow> None)"

definition weights_at :: "(addr \<rightharpoonup> ('h, 'w) obj) \<Rightarrow> addr \<Rightarrow> 'w option" where
  "weights_at h a = (case h a of Some (LayerObj c ws) \<Rightarrow> ws | _ \<Rightarrow> None)"


text \<open>A value the initializer draws for a layer with given constructor arguments.\<close>

definition drawn :: "('fs, 'x, 'cfg, 'h, 'w, 'g) framework \<Rightarrow> 'h layer \<Rightarrow> 'w \<Rightarrow> bool" where
  "drawn fw c ws = (\<exists>t h g. ws = fst (fw_initializer fw c t h g))"

text \<open>The libraries accept everything: the configuration is read, parsed and mapped,
  no constructor or call raises, and the loader does not raise.\<close>

definition accepts_everything :: "('fs, 'x, 'cfg, 'h, 'w, 'g) framework \<Rightarrow> 'fs \<Rightarrow> Definition \<Rightarrow> bool" where
  "accepts_everything fw fs cls \<longleftrightarrow>
     (\<exists>text bc params.
         fw_read fw fs (bert_config cls) = Inr text
       \<and> fw_from_json_string fw text = Inr bc
       \<and> fw_map_stock_config_to_params fw bc = Inr params)
     \<and> (\<forall>e h. fw_raises fw e h = None)
     \<and> (\<forall>a h x. fw_load_stock_weights fw fs (bert_model cls) a h \<noteq> Inl x)"

text \<open>
  Two contracts of the loader. It assigns to the layer it is handed and to no other
  object. And the checkpoint holds a value for the weights of an encoder, which is the
  same for every encoder with the same constructor arguments, whatever else the heap
  holds: every parameter of the encoder is in the checkpoint.
\<close>

definition loads_into_argument :: "('fs, 'x, 'cfg, 'h, 'w, 'g) framework \<Rightarrow> bool" where
  "loads_into_argument fw \<longleftrightarrow>
     (\<forall>fs p a h upd b. fw_load_stock_weights fw fs p a h = Inr upd \<longrightarrow> b \<noteq> a \<longrightarrow> upd b = None)"


section \<open>Running a sequence of statements\<close>

text \<open>
  \<open>always m s Q\<close>: the outcome of running \<open>m\<close> in state \<open>s\<close>, raised or returned, and
  the state it leaves satisfy \<open>Q\<close>. The lemmas below run a sequence one statement at a
  time.
\<close>

definition always ::
  "('x, 'a, 's) prog \<Rightarrow> 's \<Rightarrow> ('x pyexn + 'a \<Rightarrow> 's \<Rightarrow> bool) \<Rightarrow> bool" where
  "always m s Q = Q (fst (m s)) (snd (m s))"

text \<open>
  What a run of \<open>assemble\<close> that returns leaves behind, from the world \<open>w\<close> it started
  in: eight new objects at the next eight addresses (the encoder, the input layer, the
  pooling layer, a dropout, a dense layer, a dropout, a dense layer and the model), the
  calls made, and every other address as it was. \<open>graph a\<close> is the model object and
  \<open>assembly_events\<close> the calls, for the first new address \<open>a\<close>.
\<close>

definition graph :: "addr \<Rightarrow> ('h, 'w) obj" where
  "graph a =
     ModelObj (KerasInput (a + 1))
       (KerasOutput (a + 6) (KerasOutput (a + 5) (KerasOutput (a + 4) (KerasOutput (a + 3)
         (KerasOutput (a + 2) (KerasOutput a (KerasInput (a + 1))))))))"

definition assembly_events ::
  "path \<Rightarrow> string \<Rightarrow> 'h bert_params \<Rightarrow> int \<Rightarrow> int \<Rightarrow> addr \<Rightarrow> 'h event list" where
  "assembly_events cfg text params L N a =
     [ReadFile cfg, ParseConfig text, MapParams,
      FromParams (params\<lparr>adapter_size := None\<rparr>) ''bert'',
      Construct (InputLayer [L] Int32 ''input_ids''),
      CallLayer a (KerasInput (a + 1)),
      Construct (Lambda First_token),
      CallLayer (a + 2) (KerasOutput a (KerasInput (a + 1))),
      Construct (Dropout (1 / 2)),
      CallLayer (a + 3) (KerasOutput (a + 2) (KerasOutput a (KerasInput (a + 1)))),
      Construct (Dense 768 Tanh),
      CallLayer (a + 4)
        (KerasOutput (a + 3) (KerasOutput (a + 2) (KerasOutput a (KerasInput (a + 1))))),
      Construct (Dropout (1 / 2)),
      CallLayer (a + 5)
        (KerasOutput (a + 4) (KerasOutput (a + 3) (KerasOutput (a + 2)
          (KerasOutput a (KerasInput (a + 1)))))),
      Construct (Dense N Softmax),
      CallLayer (a + 6)
        (KerasOutput (a + 5) (KerasOutput (a + 4) (KerasOutput (a + 3) (KerasOutput (a + 2)
          (KerasOutput a (KerasInput (a + 1))))))),
      MakeModel (KerasInput (a + 1))
        (KerasOutput (a + 6) (KerasOutput (a + 5) (KerasOutput (a + 4) (KerasOutput (a + 3)
          (KerasOutput (a + 2) (KerasOutput a (KerasInput (a + 1)))))))),
      BuildModel (a + 7) [None, Some L]]"

definition assembled ::
  "('fs, 'x, 'cfg, 'h, 'w, 'g) framework \<Rightarrow> 'fs \<Rightarrow> Definition \<Rightarrow> int \<Rightarrow> int
     \<Rightarrow> ('h, 'w, 'g) world \<Rightarrow> addr \<Rightarrow> addr \<Rightarrow> ('h, 'w, 'g) world \<Rightarrow> bool" where
  "assembled fw fs cls L N w bert model w1 \<longleftrightarrow>
       bert = next_id w \<and> model = next_id w + 7 \<and> next_id w1 = next_id w + 8
     \<and> (\<exists>text bc params.
           fw_read fw fs (bert_config cls) = Inr text
         \<and> fw_from_json_string fw text = Inr bc
         \<and> fw_map_stock_config_to_params fw bc = Inr params
         \<and> conf_at (heap w1) (next_id w) =
             Some (BertModelLayer (params\<lparr>adapter_size := None\<rparr>) ''bert'')
         \<and> trace w1 = trace w @ assembly_events (bert_config cls) text params L N (next_id w))
     \<and> conf_at (heap w1) (next_id w + 1) = Some (InputLayer [L] Int32 ''input_ids'')
     \<and> conf_at (heap w1) (next_id w + 2) = Some (Lambda First_token)
     \<and> conf_at (heap w1) (next_id w + 3) = Some (Dropout (1 / 2))
     \<and> conf_at (heap w1) (next_id w + 4) = Some (Dense 768 Tanh)
     \<and> conf_at (heap w1) (next_id w + 5) = Some (Dropout (1 / 2))
     \<and> conf_at (heap w1) (next_id w + 6) = Some (Dense N Softmax)
     \<and> (\<exists>ws. weights_at (heap w1) (next_id w + 4) = Some ws \<and> drawn fw (Dense 768 Tanh) ws)
     \<and> (\<exists>ws. weights_at (heap w1) (next_id w + 6) = Some ws \<and> drawn fw (Dense N Softmax) ws)
     \<and> heap w1 (next_id w + 7) = Some (graph (next_id w))
     \<and> (\<forall>a. a < next_id w \<or> next_id w + 8 \<le> a \<longrightarrow> heap w1 a = heap w a)"

section \<open>The tokenizer accessor\<close>

text \<open>
  \<^verbatim>\<open>get_tokenizer\<close> (definition.py, lines 58 to 68) constructs a
  \<^verbatim>\<open>FullTokenizer\<close> on the file \<^verbatim>\<open>vocab.txt\<close> of the encoder directory and returns it.
  The tokenizer library is a parameter: reading a file, making a vocabulary of its
  contents, and turning a string into token ids with a vocabulary; each may raise.
\<close>

record ('fs, 'x, 'v) tokenizer_lib =
  tk_read :: "'fs \<Rightarrow> path \<Rightarrow> 'x + string"
  tk_vocab :: "string \<Rightarrow> 'x + 'v"
  tk_encode :: "'v \<Rightarrow> string \<Rightarrow> 'x + int list"

text \<open>A tokenizer object holds the path it was made from and its vocabulary; the
  objects made so far live at addresses.\<close>

record 'v tokenizer =
  vocab_file :: path
  vocab :: 'v

record 'v tokenizers =
  instances :: "addr \<rightharpoonup> 'v tokenizer"
  next_instance :: addr

text \<open>The constructor reads the file and makes the vocabulary, then the new object
  gets the next address.\<close>

definition FullTokenizer ::
  "('fs, 'x, 'v) tokenizer_lib \<Rightarrow> 'fs \<Rightarrow> path \<Rightarrow> 'v tokenizers \<Rightarrow> ('x + addr) \<times> 'v tokenizers" where
  "FullTokenizer lib fs file st =
     (case tk_read lib fs file of
        Inl x \<Rightarrow> (Inl x, st)
      | Inr contents \<Rightarrow>
          (case tk_vocab lib contents of
             Inl x \<Rightarrow> (Inl x, st)
           | Inr v \<Rightarrow>
               (Inr (next_instance st),
                st\<lparr>instances := (instances st)(next_instance st \<mapsto> \<lparr>vocab_file = file, vocab = v\<rparr>),
                   next_instance := Suc (next_instance st)\<rparr>)))"

definition get_tokenizer ::
  "('fs, 'x, 'v) tokenizer_lib \<Rightarrow> 'fs \<Rightarrow> Definition \<Rightarrow> 'v tokenizers \<Rightarrow> ('x + addr) \<times> 'v tokenizers" where
  "get_tokenizer lib fs cls st = FullTokenizer lib fs (path_join (bert_dir cls) ''vocab.txt'') st"

text \<open>The token ids the tokenizer at an address gives for a string; \<open>None\<close> when
  there is no tokenizer at the address.\<close>

definition token_ids ::
  "('fs, 'x, 'v) tokenizer_lib \<Rightarrow> 'v tokenizers \<Rightarrow> addr \<Rightarrow> string \<Rightarrow> ('x + int list) option" where
  "token_ids lib st t s =
     (case instances st t of None \<Rightarrow> None | Some tok \<Rightarrow> Some (tk_encode lib (vocab tok) s))"

section \<open>A small file system for the examples\<close>

text \<open>
  The components of a path, read with \<open>path_split\<close> from the right: empty components
  and \<^verbatim>\<open>.\<close> are dropped.
\<close>

lemma rstrip_sep_decomp: "rstrip_sep s @ rev (takeWhile (\<lambda>c. c = sep) (rev s)) = s"
  unfolding rstrip_sep_def
  by (metis rev_append rev_rev_ident takeWhile_dropWhile_id)

lemma split_head_decomp: "\<exists>r. fst (path_split p) @ r = p"
proof -
  let ?h = "rev (dropWhile (\<lambda>c. c \<noteq> sep) (rev p))"
  let ?t = "rev (takeWhile (\<lambda>c. c \<noteq> sep) (rev p))"
  have 1: "?h @ ?t = p"
    by (metis rev_append rev_rev_ident takeWhile_dropWhile_id)
  have 2: "rstrip_sep ?h @ (rev (takeWhile (\<lambda>c. c = sep) (rev ?h)) @ ?t) = p"
    using rstrip_sep_decomp [of ?h] 1 by (metis append.assoc)
  show ?thesis
  proof (cases "fst (path_split p) = ?h")
    case True
    with 1 show ?thesis by metis
  next
    case False
    then have "fst (path_split p) = rstrip_sep ?h"
      by (auto simp: path_split_def Let_def split: if_splits)
    with 2 show ?thesis by metis
  qed
qed

lemma split_head_shorter:
  assumes "fst (path_split p) \<noteq> p"
  shows "length (fst (path_split p)) < length p"
proof -
  obtain r where r: "fst (path_split p) @ r = p"
    using split_head_decomp by blast
  with assms have "r \<noteq> []" by auto
  then have "length (fst (path_split p)) < length (fst (path_split p) @ r)" by simp
  with r show ?thesis by simp
qed

function comps :: "path \<Rightarrow> string list" where
  "comps p =
     (if snd (path_split p) = [] \<and> fst (path_split p) = p then []
      else comps (fst (path_split p)) @
        (if snd (path_split p) = [] \<or> snd (path_split p) = ''.'' then []
         else [snd (path_split p)]))"
  by pat_completeness auto
termination
proof (relation "measure length", goal_cases)
  case 1
  show ?case by simp
next
  case (2 p)
  show ?case
  proof (cases "fst (path_split p) = p")
    case True
    with 2 have "snd (path_split p) \<noteq> []" by simp
    with length_split [of p] True show ?thesis
      by (cases "snd (path_split p)") auto
  next
    case False
    then show ?thesis by (simp add: split_head_shorter)
  qed
qed

declare comps.simps [simp del]

text \<open>
  The state of the small file system is the list of the directories made so far, each
  as its list of components. A path is a directory when it is not empty and its
  components lead to the root or to a directory made or to one above it; there are no
  regular files. \<open>toy_mkdir\<close> fails on the empty path and when the parent is missing
  (\<^verbatim>\<open>FileNotFoundError\<close>) and on a directory that exists (\<^verbatim>\<open>FileExistsError\<close>).
\<close>

definition toy_isdir :: "string list list \<Rightarrow> path \<Rightarrow> bool" where
  "toy_isdir fs p =
     (p \<noteq> [] \<and> (comps p = [] \<or> list_ex (\<lambda>q. prefix (comps p) q) fs))"

definition toy_mkdir :: "path \<Rightarrow> string list list \<Rightarrow> exn + string list list" where
  "toy_mkdir p fs =
     (if p = [] then Inl FileNotFoundError
      else if toy_isdir fs p then Inl FileExistsError
      else if butlast (comps p) \<noteq> [] \<and> \<not> list_ex (\<lambda>q. prefix (butlast (comps p)) q) fs
      then Inl FileNotFoundError
      else Inr (comps p # fs))"

definition toy :: "string list list posix" where
  "toy = \<lparr>os_mkdir = toy_mkdir, path_exists = toy_isdir, path_isdir = toy_isdir\<rparr>"

text \<open>An environment with \<^verbatim>\<open>BERT_DIR\<close> and \<^verbatim>\<open>BERT_MODEL\<close> set and
  \<^verbatim>\<open>BERT_CONFIG\<close> unset.\<close>

definition env1 :: environ where
  "env1 = [''BERT_DIR'' \<mapsto> ''/tmp/enc'', ''BERT_MODEL'' \<mapsto> ''weights/m.ckpt'']"

text \<open>A summary routine for the examples: it raises on a model that is not built and
  writes one line for a model that is. The model object is the flag \<open>built\<close> alone.\<close>

definition toy_summary :: "bool \<Rightarrow> string list \<Rightarrow> (string + unit) \<times> string list" where
  "toy_summary built out =
     (if built then (Inr (), out @ [''Model: model'']) else (Inl ''ValueError: not built'', out))"

text \<open>
  Libraries for the examples. Files are a map from paths to contents; a missing file
  raises. A configuration is well formed when it starts with a brace; the parameters
  mapped from it ask for adapters of size 64. The framework accepts every call; initial
  weights are drawn from a counter; the loader assigns the contents of the checkpoint
  to the layer it is handed.
\<close>

definition fw0 :: "(path \<rightharpoonup> string, string, string, string, string, nat) framework" where
  "fw0 = \<lparr>fw_read = (\<lambda>fs p. case fs p of None \<Rightarrow> Inl (''NotFoundError: '' @ p) | Some s \<Rightarrow> Inr s),
          fw_from_json_string = (\<lambda>s. if take 1 s = ''{'' then Inr s else Inl ''JSONDecodeError''),
          fw_map_stock_config_to_params = (\<lambda>c. Inr \<lparr>adapter_size = Some 64, hyper = c\<rparr>),
          fw_raises = (\<lambda>e h. None),
          fw_initializer = (\<lambda>c t h g. (''random'' @ replicate g (CHR ''*''), Suc g)),
          fw_load_stock_weights =
            (\<lambda>fs p a h. case fs p of None \<Rightarrow> Inl (''NotFoundError: '' @ p)
                       | Some s \<Rightarrow> Inr [a \<mapsto> s])\<rparr>"

definition cls0 :: Definition where
  "cls0 = \<lparr>bert_dir = ''/tmp/enc'', bert_config = ''/tmp/enc/bert_config.json'',
           bert_model = ''/tmp/enc/bert_model.ckpt''\<rparr>"

definition json0 :: string where
  "json0 = ''{hidden_size: 768, adapter_size: 64}''"

definition fs0 :: "path \<rightharpoonup> string" where
  "fs0 = [''/tmp/enc/bert_config.json'' \<mapsto> json0,
          ''/tmp/enc/bert_model.ckpt'' \<mapsto> ''pretrained'']"

text \<open>A file system whose configuration file is not JSON.\<close>

definition fs_malformed :: "path \<rightharpoonup> string" where
  "fs_malformed = [''/tmp/enc/bert_config.json'' \<mapsto> ''hidden_size = 768'',
                   ''/tmp/enc/bert_model.ckpt'' \<mapsto> ''pretrained'']"

definition w0 :: "(string, string, nat) world" where
  "w0 = \<lparr>heap = Map.empty, next_id = 0, rng = 0, trace = []\<rparr>"

text \<open>The world the first example call leaves.\<close>

definition w0_after :: "(string, string, nat) world" where
  "w0_after = snd (create_model fw0 fs0 cls0 128 5 w0)"


text \<open>
  A tokenizer library for the examples: the vocabulary is the list of the lines of the
  file, the id of a token is its line number, and a string is split at spaces.
\<close>

fun split_on :: "char \<Rightarrow> string \<Rightarrow> string list" where
  "split_on c [] = [[]]"
| "split_on c (x # xs) =
     (if x = c then [] # split_on c xs
      else (case split_on c xs of [] \<Rightarrow> [[x]] | w # ws \<Rightarrow> (x # w) # ws))"

fun token_id :: "string list \<Rightarrow> string \<Rightarrow> nat \<Rightarrow> int option" where
  "token_id [] w n = None"
| "token_id (t # ts) w n = (if t = w then Some (int n) else token_id ts w (Suc n))"

definition toy_lib :: "(path \<rightharpoonup> string, string, string list) tokenizer_lib" where
  "toy_lib =
     \<lparr>tk_read = (\<lambda>fs p. case fs p of None \<Rightarrow> Inl (''NotFoundError: '' @ p) | Some s \<Rightarrow> Inr s),
      tk_vocab = (\<lambda>contents. Inr (split_on (CHR 0x0A) contents)),
      tk_encode = (\<lambda>v s. let ids = map (\<lambda>w. token_id v w 0) (split_on (CHR '' '') s)
                          in if list_ex (\<lambda>i. i = None) ids then Inl ''KeyError''
                             else Inr (map the ids))\<rparr>"

definition vocab_text :: string where
  "vocab_text = ''[CLS]'' @ [CHR 0x0A] @ ''hello'' @ [CHR 0x0A] @ ''world''"

definition vocab_fs :: "path \<rightharpoonup> string" where
  "vocab_fs = [''/tmp/enc/vocab.txt'' \<mapsto> vocab_text]"

definition no_tokenizers :: "string list tokenizers" where
  "no_tokenizers = \<lparr>instances = Map.empty, next_instance = 0\<rparr>"

definition one_tokenizer :: "string list tokenizers" where
  "one_tokenizer =
     \<lparr>instances = [0 \<mapsto> \<lparr>vocab_file = ''/tmp/enc/vocab.txt'', vocab = [''[CLS]'', ''hello'', ''world'']\<rparr>],
      next_instance = 1\<rparr>"

definition two_tokenizers :: "string list tokenizers" where
  "two_tokenizers =
     \<lparr>instances = [0 \<mapsto> \<lparr>vocab_file = ''/tmp/enc/vocab.txt'', vocab = [''[CLS]'', ''hello'', ''world'']\<rparr>,
                   1 \<mapsto> \<lparr>vocab_file = ''/tmp/enc/vocab.txt'', vocab = [''[CLS]'', ''hello'', ''world'']\<rparr>],
      next_instance = 2\<rparr>"


section \<open>The resolved paths\<close>

text \<open>
  Claim C2. Whenever the class body completes, for every environment and base
  directory: the encoder directory is the value of \<^verbatim>\<open>BERT_DIR\<close> when the variable is
  set, and the join of the base directory with \<^verbatim>\<open>bert\<close> when it is not; the
  configuration path is the value of \<^verbatim>\<open>BERT_CONFIG\<close> when set, and the join of the
  resolved encoder directory with \<^verbatim>\<open>bert_config.json\<close> when not; the checkpoint path is
  the value of \<^verbatim>\<open>BERT_MODEL\<close> when set, and the join of the resolved encoder directory
  with \<^verbatim>\<open>bert_model.ckpt\<close> when not.
\<close>

theorem resolved_paths:
  assumes "Definition_body os env woodgate_base_dir fs = (Inr cls, fs')"
  shows "(\<forall>v. env ''BERT_DIR'' = Some v \<longrightarrow> bert_dir cls = v)
       \<and> (env ''BERT_DIR'' = None \<longrightarrow> bert_dir cls = path_join woodgate_base_dir ''bert'')
       \<and> (\<forall>v. env ''BERT_CONFIG'' = Some v \<longrightarrow> bert_config cls = v)
       \<and> (env ''BERT_CONFIG'' = None \<longrightarrow>
            bert_config cls = path_join (bert_dir cls) ''bert_config.json'')
       \<and> (\<forall>v. env ''BERT_MODEL'' = Some v \<longrightarrow> bert_model cls = v)
       \<and> (env ''BERT_MODEL'' = None \<longrightarrow>
            bert_model cls = path_join (bert_dir cls) ''bert_model.ckpt'')"
proof -
  let ?d = "getenv env ''BERT_DIR'' (path_join woodgate_base_dir ''bert'')"
  from assms have cls:
    "cls = \<lparr>bert_dir = ?d,
            bert_config = getenv env ''BERT_CONFIG'' (path_join ?d ''bert_config.json''),
            bert_model = getenv env ''BERT_MODEL'' (path_join ?d ''bert_model.ckpt'')\<rparr>"
    by (auto simp: Definition_body_def Let_def split: prod.splits sum.splits)
  show ?thesis
    by (simp add: cls getenv_def split: option.splits)
qed

lemma Definition_body_env1:
  "Definition_body toy env1 ''/base'' [] =
     (Inr \<lparr>bert_dir = ''/tmp/enc'', bert_config = ''/tmp/enc/bert_config.json'',
           bert_model = ''weights/m.ckpt''\<rparr>,
      [[''tmp'', ''enc''], [''tmp'']])"
  by code_simp

theorem resolved_paths_witness:
  "Definition_body toy env1 ''/base'' [] =
     (Inr \<lparr>bert_dir = ''/tmp/enc'', bert_config = ''/tmp/enc/bert_config.json'',
           bert_model = ''weights/m.ckpt''\<rparr>,
      [[''tmp'', ''enc''], [''tmp'']])
   \<and> env1 ''BERT_DIR'' = Some ''/tmp/enc'' \<and> env1 ''BERT_CONFIG'' = None
   \<and> env1 ''BERT_MODEL'' = Some ''weights/m.ckpt''
   \<and> path_join ''/tmp/enc'' ''bert_config.json'' = ''/tmp/enc/bert_config.json''"
  using resolved_paths [OF Definition_body_env1] Definition_body_env1
  by (simp add: env1_def)

section \<open>The summary printer passes everything through\<close>

text \<open>
  Claim C9. For every model object, every summary routine and every state of the
  output, \<^verbatim>\<open>ModelSummary.print\<close> does exactly what the model's summary routine does: an
  exception the routine raises leaves \<open>print\<close> as it is, with the output the routine
  left; a value it returns is returned as it is. The printer has no state and no
  exception of its own.
\<close>

theorem print_delegates:
  "ModelSummary_print summary m out = summary m out
   \<and> (\<forall>x out'. summary m out = (Inl x, out') \<longrightarrow>
         ModelSummary_print summary m out = (Inl x, out'))
   \<and> (\<forall>r out'. summary m out = (Inr r, out') \<longrightarrow>
         ModelSummary_print summary m out = (Inr r, out'))"
  by (simp add: ModelSummary_print_def)

theorem print_delegates_witness:
  "ModelSummary_print toy_summary False [] = (Inl ''ValueError: not built'', [])
   \<and> ModelSummary_print toy_summary True [] = (Inr (), [''Model: model''])"
  using print_delegates [of toy_summary False "[]"] print_delegates [of toy_summary True "[]"]
  by (simp add: toy_summary_def)

section \<open>Facts about the sequence of statements\<close>

lemma andthen_assoc: "andthen (andthen m f) g = andthen m (\<lambda>a. andthen (f a) g)"
  by (rule ext) (simp add: andthen_def split: prod.splits sum.splits)

lemma andthen_return: "andthen (return a) f = f a"
  by (rule ext) (simp add: andthen_def return_def)

lemma create_model_assemble:
  "create_model fw fs cls L N =
     andthen (assemble fw fs cls L N)
       (\<lambda>(bert, model).
          andthen (load_stock_weights fw fs bert (bert_model cls)) (\<lambda>_. return model))"
  by (simp add: create_model_def assemble_def andthen_assoc andthen_return)

lemma drawnI: "fw_initializer fw c t h g = (ws, g') \<Longrightarrow> drawn fw c ws"
  unfolding drawn_def by (metis fst_conv)

lemma always_andthen:
  "always (andthen m f) s Q =
     always m s (\<lambda>r s'. case r of Inl x \<Rightarrow> Q (Inl x) s' | Inr a \<Rightarrow> always (f a) s' Q)"
  by (cases "m s") (auto simp: always_def andthen_def split: sum.splits)

lemma always_return: "always (return a) s Q = Q (Inr a) s"
  by (simp add: always_def return_def)

lemma always_lift:
  "always (lift e r) w Q =
     ((\<forall>x. r = Inl x \<longrightarrow> Q (Inl (Raised x)) (emit e w))
      \<and> (\<forall>a. r = Inr a \<longrightarrow> Q (Inr a) (emit e w)))"
  by (cases r) (auto simp: always_def lift_def)

lemma always_checked:
  "always (checked fw e) w Q =
     ((\<forall>x. fw_raises fw e (heap w) = Some x \<longrightarrow> Q (Inl (Raised x)) (emit e w))
      \<and> (fw_raises fw e (heap w) = None \<longrightarrow> Q (Inr ()) (emit e w)))"
  by (cases "fw_raises fw e (heap w)") (auto simp: always_def checked_def)

lemma always_alloc:
  "always (alloc ob) w Q =
     Q (Inr (next_id w)) (w\<lparr>heap := (heap w)(next_id w \<mapsto> ob), next_id := Suc (next_id w)\<rparr>)"
  by (simp add: always_def alloc_def)

lemma always_build:
  assumes "heap w a = Some (LayerObj c None)"
  shows "always (\<lambda>w. case heap w a of
          Some (LayerObj c None) \<Rightarrow>
            (let (ws, g) = fw_initializer fw c t (heap w) (rng w)
             in (Inr (KerasOutput a t),
                 w\<lparr>heap := (heap w)(a \<mapsto> LayerObj c (Some ws)), rng := g\<rparr>))
        | Some (LayerObj c (Some ws)) \<Rightarrow> (Inr (KerasOutput a t), w)
        | _ \<Rightarrow> (Inl TypeError, w)) w Q =
     (\<forall>ws g. fw_initializer fw c t (heap w) (rng w) = (ws, g) \<longrightarrow> drawn fw c ws \<longrightarrow>
        Q (Inr (KerasOutput a t)) (w\<lparr>heap := (heap w)(a \<mapsto> LayerObj c (Some ws)), rng := g\<rparr>))"
proof (cases "fw_initializer fw c t (heap w) (rng w)")
  case (Pair ws g)
  with assms drawnI [OF Pair] show ?thesis by (simp add: always_def)
qed

lemma always_load:
  "always (load_stock_weights fw fs bert ckpt) w Q =
     ((\<forall>x. fw_load_stock_weights fw fs ckpt bert (heap w) = Inl x \<longrightarrow>
          Q (Inl (Raised x)) (emit (LoadWeights bert ckpt) w))
      \<and> (\<forall>upd. fw_load_stock_weights fw fs ckpt bert (heap w) = Inr upd \<longrightarrow>
          Q (Inr ()) (emit (LoadWeights bert ckpt) (w\<lparr>heap := set_weights upd (heap w)\<rparr>))))"
  by (cases "fw_load_stock_weights fw fs ckpt bert (heap w)")
    (auto simp: always_def load_stock_weights_def)

lemmas always_steps = always_andthen always_return always_lift always_checked always_alloc
  always_build always_load

lemmas prog_defs = GFile_read_def from_json_string_def map_stock_config_to_params_def
  from_params_def new_layer_def Input_def layer_call_def Model_def build_def

lemma alwaysD: "always m s Q \<Longrightarrow> m s = (r, s') \<Longrightarrow> Q r s'"
  by (simp add: always_def)

lemma assemble_always:
  "always (assemble fw fs cls L N) w
     (\<lambda>r w1. case r of Inl x \<Rightarrow> True
            | Inr (bert, model) \<Rightarrow> assembled fw fs cls L N w bert model w1)"
  unfolding assemble_def prog_defs
  by (simp add: always_steps emit_def assembled_def conf_at_def weights_at_def graph_def
      assembly_events_def)

lemma assemble_Inr:
  "assemble fw fs cls L N w = (Inr (bert, model), w1) \<Longrightarrow> assembled fw fs cls L N w bert model w1"
  using alwaysD [OF assemble_always, of fw fs cls L N w "Inr (bert, model)" w1] by simp

lemma create_model_Inr:
  assumes "create_model fw fs cls L N w = (Inr m, w')"
  shows "\<exists>bert w1 upd.
      assemble fw fs cls L N w = (Inr (bert, m), w1)
    \<and> fw_load_stock_weights fw fs (bert_model cls) bert (heap w1) = Inr upd
    \<and> w' = emit (LoadWeights bert (bert_model cls)) (w1\<lparr>heap := set_weights upd (heap w1)\<rparr>)"
  using assms unfolding create_model_assemble
  by (auto simp: andthen_def return_def load_stock_weights_def split: prod.splits sum.splits)


lemma next_id_w0: "next_id w0 = 0"
  by (simp add: w0_def)

lemma run0_always: "always (create_model fw0 fs0 cls0 128 5) w0 (\<lambda>r w'. r = Inr 7)"
  unfolding create_model_def prog_defs
  by (simp add: always_steps emit_def fw0_def fs0_def json0_def cls0_def w0_def)

lemma run0: "create_model fw0 fs0 cls0 128 5 w0 = (Inr 7, snd (create_model fw0 fs0 cls0 128 5 w0))"
  using run0_always by (simp add: always_def prod_eq_iff)

lemma conf_at_set_weights: "conf_at (set_weights upd h) a = conf_at h a"
  by (simp add: conf_at_def set_weights_def split: option.splits obj.splits)

lemma set_weights_ModelObj:
  "h m = Some (ModelObj i out) \<Longrightarrow> set_weights upd h m = Some (ModelObj i out)"
  by (simp add: set_weights_def)

lemma weights_at_set_weights:
  "upd a = None \<Longrightarrow> weights_at (set_weights upd h) a = weights_at h a"
  by (simp add: weights_at_def set_weights_def split: option.splits obj.splits)


lemma create_model_from_params_always:
  "always (create_model fw fs cls L N) w
     (\<lambda>r w'. \<forall>evs p n. trace w' = trace w @ evs \<longrightarrow> FromParams p n \<in> set evs \<longrightarrow>
        adapter_size p = None \<and> n = ''bert'')"
  unfolding create_model_def prog_defs
  by (simp add: always_steps emit_def)

lemma create_model_no_TypeError: "fst (create_model fw fs cls L N w) \<noteq> Inl TypeError"
proof -
  have "always (create_model fw fs cls L N) w (\<lambda>r w'. r \<noteq> Inl TypeError)"
    unfolding create_model_def prog_defs
    by (simp add: always_steps emit_def)
  then show ?thesis by (simp add: always_def)
qed

lemma create_model_load_last_always:
  "always (create_model fw fs cls L N) w
     (\<lambda>r w'. \<forall>evs a p. trace w' = trace w @ evs \<longrightarrow> LoadWeights a p \<in> set evs \<longrightarrow>
        (\<exists>text bc params evs'.
            fw_read fw fs (bert_config cls) = Inr text
          \<and> fw_from_json_string fw text = Inr bc
          \<and> fw_map_stock_config_to_params fw bc = Inr params
          \<and> evs = ReadFile (bert_config cls) # ParseConfig text # MapParams # evs'
          \<and> LoadWeights a p \<in> set evs'))"
  unfolding create_model_def prog_defs
  by (simp add: always_steps emit_def)

lemma create_model_succeeds:
  assumes "fw_read fw fs (bert_config cls) = Inr text"
    and "fw_from_json_string fw text = Inr bc"
    and "fw_map_stock_config_to_params fw bc = Inr params"
    and "\<forall>e h. fw_raises fw e h = None"
    and "\<forall>a h x. fw_load_stock_weights fw fs (bert_model cls) a h \<noteq> Inl x"
  shows "always (create_model fw fs cls L N) w
     (\<lambda>r w'. r = Inr (next_id w + 7)
         \<and> (\<exists>evs. trace w' = trace w @ assembly_events (bert_config cls) text params L N (next_id w) @ evs))"
  using assms unfolding create_model_def prog_defs
  by (simp add: always_steps emit_def assembly_events_def)

lemma model_layers_graph:
  assumes "h m = Some (graph a)"
  shows "model_layers (set_weights upd h) m = [a + 1, a, a + 2, a + 3, a + 4, a + 5, a + 6]"
proof -
  from assms have "set_weights upd h m = Some (graph a)"
    unfolding graph_def by (rule set_weights_ModelObj)
  then show ?thesis by (simp add: model_layers_def graph_def)
qed

lemma create_model_result:
  assumes "create_model fw fs cls L N w = (Inr m, w')"
  shows "\<exists>w1 upd.
      assemble fw fs cls L N w = (Inr (next_id w, m), w1)
    \<and> assembled fw fs cls L N w (next_id w) m w1
    \<and> fw_load_stock_weights fw fs (bert_model cls) (next_id w) (heap w1) = Inr upd
    \<and> heap w' = set_weights upd (heap w1)
    \<and> next_id w' = next_id w1 \<and> rng w' = rng w1
    \<and> trace w' = trace w1 @ [LoadWeights (next_id w) (bert_model cls)]"
proof -
  from create_model_Inr [OF assms] obtain bert w1 upd where
    asm: "assemble fw fs cls L N w = (Inr (bert, m), w1)" and
    ld: "fw_load_stock_weights fw fs (bert_model cls) bert (heap w1) = Inr upd" and
    w': "w' = emit (LoadWeights bert (bert_model cls)) (w1\<lparr>heap := set_weights upd (heap w1)\<rparr>)"
    by blast
  from assemble_Inr [OF asm] have a: "assembled fw fs cls L N w bert m w1" .
  then have b: "bert = next_id w" by (simp add: assembled_def)
  show ?thesis
    apply (rule exI [of _ w1], rule exI [of _ upd])
    using asm a ld by (simp add: w' emit_def b)
qed

lemma create_model_input_always:
  "always (create_model fw fs cls L N) w
     (\<lambda>r w'. \<forall>evs shape dt nm. trace w' = trace w @ evs \<longrightarrow>
        Construct (InputLayer shape dt nm) \<in> set evs \<longrightarrow> shape = [L])"
  unfolding create_model_def prog_defs
  by (simp add: always_steps emit_def)

lemma create_model_dense_always:
  "always (create_model fw fs cls L N) w
     (\<lambda>r w'. \<forall>evs units. trace w' = trace w @ evs \<longrightarrow>
        Construct (Dense units Softmax) \<in> set evs \<longrightarrow> units = N)"
  unfolding create_model_def prog_defs
  by (simp add: always_steps emit_def)

lemma create_model_build_always:
  "always (create_model fw fs cls L N) w
     (\<lambda>r w'. \<forall>evs m shape. trace w' = trace w @ evs \<longrightarrow>
        BuildModel m shape \<in> set evs \<longrightarrow> shape = [None, Some L])"
  unfolding create_model_def prog_defs
  by (simp add: always_steps emit_def)

lemma create_model_read_fails:
  assumes "fw_read fw fs (bert_config cls) = Inl x"
  shows "create_model fw fs cls L N w = (Inl (Raised x), emit (ReadFile (bert_config cls)) w)"
  using assms by (simp add: create_model_def GFile_read_def andthen_def lift_def)

lemma create_model_parse_fails:
  assumes "fw_read fw fs (bert_config cls) = Inr text" and "fw_from_json_string fw text = Inl x"
  shows "create_model fw fs cls L N w =
           (Inl (Raised x), emit (ParseConfig text) (emit (ReadFile (bert_config cls)) w))"
  using assms
  by (simp add: create_model_def GFile_read_def from_json_string_def andthen_def lift_def)

lemma set_weights_None: "upd b = None \<Longrightarrow> set_weights upd h b = h b"
  by (simp add: set_weights_def split: option.splits obj.splits)

lemma weights_at_set_weights_Some:
  "conf_at h a = Some c \<Longrightarrow>
   weights_at (set_weights upd h) a = (case upd a of Some v \<Rightarrow> Some v | None \<Rightarrow> weights_at h a)"
  by (auto simp: weights_at_def conf_at_def set_weights_def split: option.splits obj.splits)





text \<open>The example call.\<close>

lemma fs0_json0: "fs0 = [''/tmp/enc/bert_config.json'' \<mapsto> json0,
          ''/tmp/enc/bert_model.ckpt'' \<mapsto> ''pretrained'']"
  by (simp add: fs0_def)

lemma run0_trace_always:
  "always (create_model fw0 fs0 cls0 128 5) w0
     (\<lambda>r w'. trace w' =
        assembly_events ''/tmp/enc/bert_config.json'' json0
          \<lparr>adapter_size = Some 64, hyper = json0\<rparr> 128 5 0
        @ [LoadWeights 0 ''/tmp/enc/bert_model.ckpt''])"
  unfolding create_model_def prog_defs
  by (simp add: always_steps emit_def fw0_def fs0_def cls0_def w0_def assembly_events_def json0_def)

lemma run0_after: "create_model fw0 fs0 cls0 128 5 w0 = (Inr 7, w0_after)"
  unfolding w0_after_def by (rule run0)

lemma trace_w0: "trace w0 = []"
  by (simp add: w0_def)

lemma trace_w0_after:
  "trace w0_after =
     assembly_events ''/tmp/enc/bert_config.json'' json0
       \<lparr>adapter_size = Some 64, hyper = json0\<rparr> 128 5 0
     @ [LoadWeights 0 ''/tmp/enc/bert_model.ckpt'']"
  using run0_trace_always by (simp add: always_def w0_after_def)

lemma fw0_accepts: "accepts_everything fw0 fs0 cls0"
  by (simp add: accepts_everything_def fw0_def fs0_def json0_def cls0_def)

lemma fw0_loads_into_argument: "loads_into_argument fw0"
  by (auto simp: loads_into_argument_def fw0_def split: option.splits)




lemma get_tokenizer_Inr:
  assumes "get_tokenizer lib fs cls st = (Inr t, st')"
  shows "\<exists>contents v.
      tk_read lib fs (path_join (bert_dir cls) ''vocab.txt'') = Inr contents
    \<and> tk_vocab lib contents = Inr v
    \<and> t = next_instance st
    \<and> st' = st\<lparr>instances := (instances st)(next_instance st \<mapsto>
               \<lparr>vocab_file = path_join (bert_dir cls) ''vocab.txt'', vocab = v\<rparr>),
             next_instance := Suc (next_instance st)\<rparr>"
  using assms
  by (auto simp: get_tokenizer_def FullTokenizer_def split: sum.splits)

lemma toy_path: "path_join (bert_dir cls0) ''vocab.txt'' = ''/tmp/enc/vocab.txt''"
  by code_simp

lemma toy_read: "tk_read toy_lib vocab_fs ''/tmp/enc/vocab.txt'' = Inr vocab_text"
  by (simp add: toy_lib_def vocab_fs_def)

lemma toy_vocab: "tk_vocab toy_lib vocab_text = Inr [''[CLS]'', ''hello'', ''world'']"
  by code_simp

lemma toy_encode: "tk_encode toy_lib [''[CLS]'', ''hello'', ''world''] ''hello world'' = Inr [1, 2]"
  by code_simp

lemma toy_call1: "get_tokenizer toy_lib vocab_fs cls0 no_tokenizers = (Inr 0, one_tokenizer)"
  by (simp add: get_tokenizer_def FullTokenizer_def toy_path toy_read toy_vocab
      no_tokenizers_def one_tokenizer_def)

lemma toy_call2: "get_tokenizer toy_lib vocab_fs cls0 one_tokenizer = (Inr 1, two_tokenizers)"
  by (simp add: get_tokenizer_def FullTokenizer_def toy_path toy_read toy_vocab
      two_tokenizers_def one_tokenizer_def)



section \<open>The model is the ordered composition\<close>




section \<open>The adapter size is forced to None\<close>

text \<open>
  Claim C3. Whatever the configuration file says and whatever the libraries make of it:
  in every run of \<open>create_model\<close>, also one that ends in an exception, every call of
  \<^verbatim>\<open>BertModelLayer.from_params\<close> is made with parameters whose adapter size is
  \<open>None\<close>; and when a model is returned, every encoder layer among its layers has
  adapter size \<open>None\<close>, and the encoder is there, with the parameters mapped from the
  file and the adapter size set to \<open>None\<close>.
\<close>

theorem adapter_size_forced_to_None:
  assumes "create_model fw fs cls L N w = (r, w')"
  shows "(\<forall>evs p n. trace w' = trace w @ evs \<longrightarrow> FromParams p n \<in> set evs \<longrightarrow>
            adapter_size p = None)
       \<and> (\<forall>m a p n. r = Inr m \<longrightarrow> a \<in> set (model_layers (heap w') m) \<longrightarrow>
            conf_at (heap w') a = Some (BertModelLayer p n) \<longrightarrow> adapter_size p = None)
       \<and> (\<forall>m. r = Inr m \<longrightarrow>
            (\<exists>text bc params.
                fw_read fw fs (bert_config cls) = Inr text
              \<and> fw_from_json_string fw text = Inr bc
              \<and> fw_map_stock_config_to_params fw bc = Inr params
              \<and> next_id w \<in> set (model_layers (heap w') m)
              \<and> conf_at (heap w') (next_id w) =
                  Some (BertModelLayer (params\<lparr>adapter_size := None\<rparr>) ''bert'')))"
proof (intro conjI allI impI)
  fix evs p n
  assume "trace w' = trace w @ evs" "FromParams p n \<in> set evs"
  with alwaysD [OF create_model_from_params_always assms]
  show "adapter_size p = None" by blast
next
  fix m a p n
  assume r: "r = Inr m" and a: "a \<in> set (model_layers (heap w') m)"
    and c: "conf_at (heap w') a = Some (BertModelLayer p n)"
  from create_model_result [OF assms [unfolded r]] obtain w1 upd where
    asd: "assembled fw fs cls L N w (next_id w) m w1" and
    h: "heap w' = set_weights upd (heap w1)"
    by blast
  from asd have "heap w1 m = Some (graph (next_id w))" by (simp add: assembled_def)
  from model_layers_graph [of "heap w1" m "next_id w" upd, OF this] a
  have "a \<in> {next_id w + 1, next_id w, next_id w + 2, next_id w + 3, next_id w + 4,
             next_id w + 5, next_id w + 6}"
    by (simp add: h)
  moreover from c have "conf_at (heap w1) a = Some (BertModelLayer p n)"
    by (simp add: h conf_at_set_weights)
  ultimately show "adapter_size p = None"
    using asd unfolding assembled_def by auto
next
  fix m
  assume r: "r = Inr m"
  from create_model_result [OF assms [unfolded r]] obtain w1 upd where
    asd: "assembled fw fs cls L N w (next_id w) m w1" and
    h: "heap w' = set_weights upd (heap w1)"
    by blast
  from asd have "heap w1 m = Some (graph (next_id w))" by (simp add: assembled_def)
  from model_layers_graph [of "heap w1" m "next_id w" upd, OF this]
  have "next_id w \<in> set (model_layers (heap w') m)" by (simp add: h)
  then show "\<exists>text bc params.
                fw_read fw fs (bert_config cls) = Inr text
              \<and> fw_from_json_string fw text = Inr bc
              \<and> fw_map_stock_config_to_params fw bc = Inr params
              \<and> next_id w \<in> set (model_layers (heap w') m)
              \<and> conf_at (heap w') (next_id w) =
                  Some (BertModelLayer (params\<lparr>adapter_size := None\<rparr>) ''bert'')"
    using asd unfolding assembled_def h conf_at_set_weights by auto
qed


theorem adapter_size_forced_to_None_witness:
  "fw_map_stock_config_to_params fw0 json0 = Inr \<lparr>adapter_size = Some 64, hyper = json0\<rparr>
   \<and> FromParams \<lparr>adapter_size = None, hyper = json0\<rparr> ''bert'' \<in> set (trace w0_after)
   \<and> 0 \<in> set (model_layers (heap w0_after) 7)
   \<and> conf_at (heap w0_after) 0 =
        Some (BertModelLayer \<lparr>adapter_size = None, hyper = json0\<rparr> ''bert'')"
  using adapter_size_forced_to_None [OF run0_after]
  by (auto simp: fw0_def fs0_json0 cls0_def next_id_w0 trace_w0 trace_w0_after
      assembly_events_def split: if_splits)


section \<open>A bad configuration ends the call before any weight is loaded\<close>

text \<open>
  Claim C4. When the configuration file cannot be read, \<open>create_model\<close> raises the
  exception of the read, and the only call made is the read: the heap is as it was and
  no model is returned. When the file is read and cannot be parsed, it raises the
  exception of the parser after the read and the parse, and nothing else. And in every
  run, whatever its end: when the loading of weights is attempted, the configuration
  was read, parsed and mapped before, and these three calls come first.
\<close>

theorem config_failure_before_weight_loading:
  "(\<forall>x. fw_read fw fs (bert_config cls) = Inl x \<longrightarrow>
       create_model fw fs cls L N w = (Inl (Raised x), emit (ReadFile (bert_config cls)) w))
   \<and> (\<forall>text x. fw_read fw fs (bert_config cls) = Inr text \<longrightarrow>
         fw_from_json_string fw text = Inl x \<longrightarrow>
         create_model fw fs cls L N w =
           (Inl (Raised x), emit (ParseConfig text) (emit (ReadFile (bert_config cls)) w)))
   \<and> (\<forall>r w' evs a p. create_model fw fs cls L N w = (r, w') \<longrightarrow>
         trace w' = trace w @ evs \<longrightarrow> LoadWeights a p \<in> set evs \<longrightarrow>
         (\<exists>text bc params evs'.
             fw_read fw fs (bert_config cls) = Inr text
           \<and> fw_from_json_string fw text = Inr bc
           \<and> fw_map_stock_config_to_params fw bc = Inr params
           \<and> evs = ReadFile (bert_config cls) # ParseConfig text # MapParams # evs'
           \<and> LoadWeights a p \<in> set evs'))"
proof (intro conjI allI impI)
  fix x
  assume "fw_read fw fs (bert_config cls) = Inl x"
  then show "create_model fw fs cls L N w = (Inl (Raised x), emit (ReadFile (bert_config cls)) w)"
    by (rule create_model_read_fails)
next
  fix json x
  assume "fw_read fw fs (bert_config cls) = Inr json" "fw_from_json_string fw json = Inl x"
  then show "create_model fw fs cls L N w =
           (Inl (Raised x), emit (ParseConfig json) (emit (ReadFile (bert_config cls)) w))"
    by (rule create_model_parse_fails)
next
  fix r w' evs a p
  assume run: "create_model fw fs cls L N w = (r, w')"
    and "trace w' = trace w @ evs" "LoadWeights a p \<in> set evs"
  with alwaysD [OF create_model_load_last_always run]
  show "\<exists>text bc params evs'.
             fw_read fw fs (bert_config cls) = Inr text
           \<and> fw_from_json_string fw text = Inr bc
           \<and> fw_map_stock_config_to_params fw bc = Inr params
           \<and> evs = ReadFile (bert_config cls) # ParseConfig text # MapParams # evs'
           \<and> LoadWeights a p \<in> set evs'"
    by blast
qed



theorem config_failure_before_weight_loading_witness:
  "create_model fw0 Map.empty cls0 128 5 w0 =
     (Inl (Raised ''NotFoundError: /tmp/enc/bert_config.json''),
      \<lparr>heap = Map.empty, next_id = 0, rng = 0, trace = [ReadFile ''/tmp/enc/bert_config.json'']\<rparr>)
   \<and> create_model fw0 fs_malformed cls0 128 5 w0 =
     (Inl (Raised ''JSONDecodeError''),
      \<lparr>heap = Map.empty, next_id = 0, rng = 0,
        trace = [ReadFile ''/tmp/enc/bert_config.json'', ParseConfig ''hidden_size = 768'']\<rparr>)
   \<and> (\<exists>evs'. trace w0_after =
          ReadFile ''/tmp/enc/bert_config.json'' # ParseConfig json0 # MapParams # evs'
        \<and> LoadWeights 0 ''/tmp/enc/bert_model.ckpt'' \<in> set evs')"
proof -
  have 1: "fw_read fw0 Map.empty (bert_config cls0) = Inl ''NotFoundError: /tmp/enc/bert_config.json''"
    by (simp add: fw0_def cls0_def)
  have 2: "fw_read fw0 fs_malformed (bert_config cls0) = Inr ''hidden_size = 768''"
    by (simp add: fw0_def cls0_def fs_malformed_def)
  have 3: "fw_from_json_string fw0 ''hidden_size = 768'' = Inl ''JSONDecodeError''"
    by (simp add: fw0_def)
  have 4: "trace w0_after = trace w0 @ trace w0_after"
    by (simp add: trace_w0)
  have 5: "LoadWeights 0 ''/tmp/enc/bert_model.ckpt'' \<in> set (trace w0_after)"
    by (simp add: trace_w0_after)
  have a: "create_model fw0 Map.empty cls0 128 5 w0 =
     (Inl (Raised ''NotFoundError: /tmp/enc/bert_config.json''),
      \<lparr>heap = Map.empty, next_id = 0, rng = 0, trace = [ReadFile ''/tmp/enc/bert_config.json'']\<rparr>)"
    using config_failure_before_weight_loading [of fw0 Map.empty cls0 128 5 w0] 1
    by (simp add: emit_def w0_def cls0_def)
  have b: "create_model fw0 fs_malformed cls0 128 5 w0 =
     (Inl (Raised ''JSONDecodeError''),
      \<lparr>heap = Map.empty, next_id = 0, rng = 0,
        trace = [ReadFile ''/tmp/enc/bert_config.json'', ParseConfig ''hidden_size = 768'']\<rparr>)"
    using config_failure_before_weight_loading [of fw0 fs_malformed cls0 128 5 w0] 2 3
    by (simp add: emit_def w0_def cls0_def)
  have c: "\<exists>evs'. trace w0_after =
          ReadFile ''/tmp/enc/bert_config.json'' # ParseConfig json0 # MapParams # evs'
        \<and> LoadWeights 0 ''/tmp/enc/bert_model.ckpt'' \<in> set evs'"
    using config_failure_before_weight_loading [of fw0 fs0 cls0 128 5 w0] run0_after 4 5
    by (fastforce simp: fw0_def fs0_json0 cls0_def)
  from a b c show ?thesis by blast
qed



section \<open>No validation of the two integers\<close>

text \<open>
  Claim C10. For all integers \<open>L\<close> and \<open>N\<close>, zero and negative ones included:
  every exception \<open>create_model\<close> raises is one a library raised; in every run the
  input layer is constructed with the shape \<open>(L,)\<close>, the last dense layer with \<open>N\<close>
  units and the model is built for the shape \<open>(None, L)\<close>, the values as they were
  passed; and when the libraries accept everything, \<open>create_model\<close> returns a model.
\<close>

theorem no_argument_validation:
  "(\<forall>e. fst (create_model fw fs cls L N w) = Inl e \<longrightarrow> (\<exists>x. e = Raised x))
   \<and> (\<forall>r w' evs. create_model fw fs cls L N w = (r, w') \<longrightarrow> trace w' = trace w @ evs \<longrightarrow>
        (\<forall>shape dt nm. Construct (InputLayer shape dt nm) \<in> set evs \<longrightarrow> shape = [L])
      \<and> (\<forall>units. Construct (Dense units Softmax) \<in> set evs \<longrightarrow> units = N)
      \<and> (\<forall>m shape. BuildModel m shape \<in> set evs \<longrightarrow> shape = [None, Some L]))
   \<and> (accepts_everything fw fs cls \<longrightarrow>
        (\<exists>w'. create_model fw fs cls L N w = (Inr (next_id w + 7), w')
            \<and> Construct (InputLayer [L] Int32 ''input_ids'') \<in> set (trace w')
            \<and> Construct (Dense N Softmax) \<in> set (trace w')
            \<and> BuildModel (next_id w + 7) [None, Some L] \<in> set (trace w')))"
proof (intro conjI allI impI)
  fix e
  assume "fst (create_model fw fs cls L N w) = Inl e"
  with create_model_no_TypeError [of fw fs cls L N w] show "\<exists>x. e = Raised x"
    by (cases e) auto
next
  fix r w' evs shape dt nm
  assume run: "create_model fw fs cls L N w = (r, w')"
    and "trace w' = trace w @ evs" "Construct (InputLayer shape dt nm) \<in> set evs"
  with alwaysD [OF create_model_input_always run] show "shape = [L]" by blast
next
  fix r w' evs units
  assume run: "create_model fw fs cls L N w = (r, w')"
    and "trace w' = trace w @ evs" "Construct (Dense units Softmax) \<in> set evs"
  with alwaysD [OF create_model_dense_always run] show "units = N" by blast
next
  fix r w' evs m shape
  assume run: "create_model fw fs cls L N w = (r, w')"
    and "trace w' = trace w @ evs" "BuildModel m shape \<in> set evs"
  with alwaysD [OF create_model_build_always run] show "shape = [None, Some L]" by blast
next
  assume "accepts_everything fw fs cls"
  then obtain json bc params where
    ok: "fw_read fw fs (bert_config cls) = Inr json" "fw_from_json_string fw json = Inr bc"
      "fw_map_stock_config_to_params fw bc = Inr params"
      "\<forall>e h. fw_raises fw e h = None"
      "\<forall>a h x. fw_load_stock_weights fw fs (bert_model cls) a h \<noteq> Inl x"
    unfolding accepts_everything_def by blast
  obtain r w' where run: "create_model fw fs cls L N w = (r, w')"
    by (cases "create_model fw fs cls L N w") auto
  from alwaysD [OF create_model_succeeds [OF ok] run] obtain evs where
    r: "r = Inr (next_id w + 7)" and
    t: "trace w' = trace w @ assembly_events (bert_config cls) json params L N (next_id w) @ evs"
    by blast
  show "\<exists>w'. create_model fw fs cls L N w = (Inr (next_id w + 7), w')
            \<and> Construct (InputLayer [L] Int32 ''input_ids'') \<in> set (trace w')
            \<and> Construct (Dense N Softmax) \<in> set (trace w')
            \<and> BuildModel (next_id w + 7) [None, Some L] \<in> set (trace w')"
    by (rule exI [of _ w']) (simp add: run [unfolded r] t assembly_events_def)
qed


theorem no_argument_validation_witness:
  "\<exists>w'. create_model fw0 fs0 cls0 0 (- 3) w0 = (Inr 7, w')
      \<and> Construct (InputLayer [0] Int32 ''input_ids'') \<in> set (trace w')
      \<and> Construct (Dense (- 3) Softmax) \<in> set (trace w')
      \<and> BuildModel 7 [None, Some 0] \<in> set (trace w')"
  using no_argument_validation [of fw0 fs0 cls0 0 "- 3" w0] fw0_accepts
  by (simp add: next_id_w0)


section \<open>Loading the weights changes the encoder only\<close>

text \<open>
  Claim C5. When \<open>create_model\<close> returns a model and the loader assigns only to the
  layer it is handed: the world \<open>w1\<close> that \<open>assemble\<close> left is the one after the graph
  is assembled and built; the loader is called on the encoder of the model, in that
  world; every object but the encoder, so every other layer of the model and the model
  itself, is in the end what it was in \<open>w1\<close>; the weights of the encoder are the value
  the loader assigned, if it assigned one; the random generator and the next address
  are as in \<open>w1\<close>; and the weights of the two dense layers are values the initializer
  drew.
\<close>

theorem weight_loading_touches_encoder_only:
  assumes run: "create_model fw fs cls L N w = (Inr m, w')"
    and ctr: "loads_into_argument fw"
  shows "\<exists>w1 upd.
       assemble fw fs cls L N w = (Inr (next_id w, m), w1)
     \<and> fw_load_stock_weights fw fs (bert_model cls) (next_id w) (heap w1) = Inr upd
     \<and> model_layers (heap w') m =
         [next_id w + 1, next_id w, next_id w + 2, next_id w + 3, next_id w + 4,
          next_id w + 5, next_id w + 6]
     \<and> (\<exists>p. conf_at (heap w') (next_id w) = Some (BertModelLayer p ''bert''))
     \<and> (\<forall>b. b \<noteq> next_id w \<longrightarrow> heap w' b = heap w1 b)
     \<and> weights_at (heap w') (next_id w) =
         (case upd (next_id w) of Some v \<Rightarrow> Some v | None \<Rightarrow> weights_at (heap w1) (next_id w))
     \<and> rng w' = rng w1 \<and> next_id w' = next_id w1
     \<and> (\<exists>ws. weights_at (heap w') (next_id w + 4) = Some ws \<and> drawn fw (Dense 768 Tanh) ws)
     \<and> (\<exists>ws. weights_at (heap w') (next_id w + 6) = Some ws \<and> drawn fw (Dense N Softmax) ws)"
proof -
  from create_model_result [OF run] obtain w1 upd where
    asm: "assemble fw fs cls L N w = (Inr (next_id w, m), w1)" and
    asd: "assembled fw fs cls L N w (next_id w) m w1" and
    ld: "fw_load_stock_weights fw fs (bert_model cls) (next_id w) (heap w1) = Inr upd" and
    h: "heap w' = set_weights upd (heap w1)" and
    rest: "next_id w' = next_id w1" "rng w' = rng w1"
    by blast
  from ctr ld have none: "upd b = None" if "b \<noteq> next_id w" for b
    using that unfolding loads_into_argument_def by blast
  have frame: "\<forall>b. b \<noteq> next_id w \<longrightarrow> heap w' b = heap w1 b"
    by (simp add: h none set_weights_None)
  from asd have g: "heap w1 m = Some (graph (next_id w))"
    by (simp add: assembled_def)
  have layers: "model_layers (heap w') m =
         [next_id w + 1, next_id w, next_id w + 2, next_id w + 3, next_id w + 4,
          next_id w + 5, next_id w + 6]"
    unfolding h by (rule model_layers_graph [of "heap w1" m "next_id w" upd, OF g])
  from asd obtain p where p: "conf_at (heap w1) (next_id w) = Some (BertModelLayer p ''bert'')"
    unfolding assembled_def by blast
  then have enc: "\<exists>p. conf_at (heap w') (next_id w) = Some (BertModelLayer p ''bert'')"
    by (simp add: h conf_at_set_weights)
  have wenc: "weights_at (heap w') (next_id w) =
         (case upd (next_id w) of Some v \<Rightarrow> Some v | None \<Rightarrow> weights_at (heap w1) (next_id w))"
    unfolding h by (rule weights_at_set_weights_Some [OF p])
  have same: "weights_at (heap w') b = weights_at (heap w1) b" if "b \<noteq> next_id w" for b
    using that by (simp add: h none weights_at_set_weights)
  from asd have d1: "\<exists>ws. weights_at (heap w') (next_id w + 4) = Some ws \<and> drawn fw (Dense 768 Tanh) ws"
    by (simp add: same assembled_def)
  from asd have d2: "\<exists>ws. weights_at (heap w') (next_id w + 6) = Some ws \<and> drawn fw (Dense N Softmax) ws"
    by (simp add: same assembled_def)
  show ?thesis
    by (rule exI [of _ w1], rule exI [of _ upd])
      (intro conjI asm ld layers enc frame wenc rest d1 d2)
qed

theorem weight_loading_touches_encoder_only_witness:
  "loads_into_argument fw0
   \<and> model_layers (heap w0_after) 7 = [1, 0, 2, 3, 4, 5, 6]
   \<and> weights_at (heap w0_after) 0 = Some ''pretrained''
   \<and> (\<exists>ws. weights_at (heap w0_after) 4 = Some ws \<and> drawn fw0 (Dense 768 Tanh) ws)
   \<and> (\<exists>ws. weights_at (heap w0_after) 6 = Some ws \<and> drawn fw0 (Dense 5 Softmax) ws)"
proof -
  from weight_loading_touches_encoder_only [OF run0_after fw0_loads_into_argument]
  obtain w1 :: "(string, string, nat) world" and upd where
    ld: "fw_load_stock_weights fw0 fs0 (bert_model cls0) (next_id w0) (heap w1) = Inr upd" and
    l: "model_layers (heap w0_after) 7 =
         [next_id w0 + 1, next_id w0, next_id w0 + 2, next_id w0 + 3, next_id w0 + 4,
          next_id w0 + 5, next_id w0 + 6]" and
    e: "weights_at (heap w0_after) (next_id w0) =
         (case upd (next_id w0) of Some v \<Rightarrow> Some v | None \<Rightarrow> weights_at (heap w1) (next_id w0))" and
    d: "\<exists>ws. weights_at (heap w0_after) (next_id w0 + 4) = Some ws \<and> drawn fw0 (Dense 768 Tanh) ws"
       "\<exists>ws. weights_at (heap w0_after) (next_id w0 + 6) = Some ws \<and> drawn fw0 (Dense 5 Softmax) ws"
    by blast
  from ld have "upd = [0 \<mapsto> ''pretrained'']"
    by (simp add: fw0_def fs0_def cls0_def next_id_w0)
  with e have "weights_at (heap w0_after) 0 = Some ''pretrained''"
    by (simp add: next_id_w0)
  with l d fw0_loads_into_argument show ?thesis
    by (simp add: next_id_w0)
qed


section \<open>Two calls: equal encoder weights, separate objects\<close>





section \<open>Every call makes a new tokenizer of the same file\<close>

text \<open>
  Claim C8. Two calls of \<open>get_tokenizer\<close>, the second after the first, with the
  vocabulary file reading the same at both: each call makes a new object at the next
  address, so the two tokenizers are different objects; the second call reads the file
  again and makes its vocabulary of what it read; both objects are bound to
  \<^verbatim>\<open>vocab.txt\<close> in the encoder directory and hold the same vocabulary; both give the
  same token ids for every string; and no other object is made or changed, so nothing
  is cached.
\<close>

theorem get_tokenizer_fresh_and_deterministic:
  assumes call1: "get_tokenizer lib fs cls st = (Inr t1, st1)"
    and call2: "get_tokenizer lib fs' cls st1 = (Inr t2, st2)"
    and same: "tk_read lib fs' (path_join (bert_dir cls) ''vocab.txt'') =
               tk_read lib fs (path_join (bert_dir cls) ''vocab.txt'')"
  shows "t1 = next_instance st \<and> t2 = next_instance st1 \<and> t1 \<noteq> t2
     \<and> (\<exists>contents v.
           tk_read lib fs' (path_join (bert_dir cls) ''vocab.txt'') = Inr contents
         \<and> tk_vocab lib contents = Inr v
         \<and> instances st2 t1 =
             Some \<lparr>vocab_file = path_join (bert_dir cls) ''vocab.txt'', vocab = v\<rparr>
         \<and> instances st2 t2 =
             Some \<lparr>vocab_file = path_join (bert_dir cls) ''vocab.txt'', vocab = v\<rparr>)
     \<and> (\<forall>s. token_ids lib st2 t1 s \<noteq> None \<and> token_ids lib st2 t1 s = token_ids lib st2 t2 s)
     \<and> (\<forall>a. a \<noteq> t1 \<and> a \<noteq> t2 \<longrightarrow> instances st2 a = instances st a)"
proof -
  let ?p = "path_join (bert_dir cls) ''vocab.txt''"
  from get_tokenizer_Inr [OF call1] obtain c1 v1 where
    1: "tk_read lib fs ?p = Inr c1" "tk_vocab lib c1 = Inr v1" "t1 = next_instance st"
       "st1 = st\<lparr>instances := (instances st)(next_instance st \<mapsto> \<lparr>vocab_file = ?p, vocab = v1\<rparr>),
             next_instance := Suc (next_instance st)\<rparr>"
    by blast
  from get_tokenizer_Inr [OF call2] obtain c2 v2 where
    2: "tk_read lib fs' ?p = Inr c2" "tk_vocab lib c2 = Inr v2" "t2 = next_instance st1"
       "st2 = st1\<lparr>instances := (instances st1)(next_instance st1 \<mapsto> \<lparr>vocab_file = ?p, vocab = v2\<rparr>),
             next_instance := Suc (next_instance st1)\<rparr>"
    by blast
  from same 1(1) 2(1) have c: "c2 = c1" by simp
  with 1(2) 2(2) have v: "v2 = v1" by simp
  have n: "next_instance st1 = Suc (next_instance st)" by (simp add: 1(4))
  have i1: "instances st2 t1 = Some \<lparr>vocab_file = ?p, vocab = v1\<rparr>"
    by (simp add: 2(4) n 1(3)) (simp add: 1(4))
  have i2: "instances st2 t2 = Some \<lparr>vocab_file = ?p, vocab = v1\<rparr>"
    by (simp add: 2(4) 2(3) v)
  have ne: "t1 \<noteq> t2" by (simp add: 1(3) 2(3) n)
  have ids: "\<forall>s. token_ids lib st2 t1 s \<noteq> None \<and> token_ids lib st2 t1 s = token_ids lib st2 t2 s"
    by (simp add: token_ids_def i1 i2)
  have others: "\<forall>a. a \<noteq> t1 \<and> a \<noteq> t2 \<longrightarrow> instances st2 a = instances st a"
    by (simp add: 2(4) 2(3) 1(3)) (simp add: 1(4))
  have ex: "\<exists>contents v.
           tk_read lib fs' ?p = Inr contents
         \<and> tk_vocab lib contents = Inr v
         \<and> instances st2 t1 = Some \<lparr>vocab_file = ?p, vocab = v\<rparr>
         \<and> instances st2 t2 = Some \<lparr>vocab_file = ?p, vocab = v\<rparr>"
    using 2(1) 1(2) i1 i2 c by blast
  show ?thesis
    by (intro conjI 1(3) 2(3) ne ex ids others)
qed


theorem get_tokenizer_fresh_and_deterministic_witness:
  "get_tokenizer toy_lib vocab_fs cls0 no_tokenizers = (Inr 0, one_tokenizer)
   \<and> get_tokenizer toy_lib vocab_fs cls0 one_tokenizer = (Inr 1, two_tokenizers)
   \<and> token_ids toy_lib two_tokenizers 0 ''hello world'' = Some (Inr [1, 2])
   \<and> token_ids toy_lib two_tokenizers 1 ''hello world'' = Some (Inr [1, 2])"
proof -
  note t = get_tokenizer_fresh_and_deterministic [OF toy_call1 toy_call2 refl]
  note e = t [THEN conjunct2, THEN conjunct2, THEN conjunct2, THEN conjunct2, THEN conjunct1,
      rule_format, of "''hello world''", THEN conjunct2]
  have n: "next_instance no_tokenizers = 0" "next_instance one_tokenizer = 1"
    by (simp_all add: no_tokenizers_def one_tokenizer_def)
  have a: "token_ids toy_lib two_tokenizers 0 ''hello world'' = Some (Inr [1, 2])"
    by (simp add: token_ids_def two_tokenizers_def toy_encode)
  from e [unfolded n] a
  have b: "token_ids toy_lib two_tokenizers 1 ''hello world'' = Some (Inr [1, 2])"
    by simp
  from toy_call1 toy_call2 a b show ?thesis by (intro conjI)
qed


end
